theory Spec2Isabelle
  imports Complex_Main "HOL-Library.Word"
begin

section \<open>The audio visualizer (AudioVisualizer, recorder.tsx lines 300-431)\<close>

text \<open>
  JavaScript numbers are IEEE doubles. The visualizer's arithmetic is modelled over the
  reals: rounding and overflow are idealised away, and the theorems of this section are
  statements about the formulas the code computes. All values that occur are finite (a
  byte magnitude lies in 0..255 and no divisor can be zero), so NaN and the infinities do
  not arise in the states the component can reach.

  A frequency snapshot is the \<open>Uint8Array\<close> that \<open>getByteFrequencyData\<close> fills: a list of
  bytes.
\<close>

type_synonym snapshot = "8 word list"

text \<open>
  The component's state: the React state \<open>amplitudes\<close>, the ref \<open>recentMaxValues\<close>
  (created as \<open>[0, 0, 0]\<close>) and the refs that hold browser resources, of which the model
  keeps only whether they are set.
\<close>

record visualizer =
  amplitudes :: "real list"
  recentMaxValues :: "real list"
  animationFrameRef :: bool
  sourceRef :: bool
  audioContextRef :: bool
  analyserRef :: bool

definition initialVisualizer :: visualizer where
  "initialVisualizer =
     \<lparr>amplitudes = [0, 0, 0], recentMaxValues = [0, 0, 0], animationFrameRef = False,
      sourceRef = False, audioContextRef = False, analyserRef = False\<rparr>"

definition adaptationRate :: real where
  "adaptationRate = 0.05"

definition bassRange :: "nat \<times> nat" where
  "bassRange = (0, 10)"

definition midRange :: "nat \<times> nat" where
  "midRange = (10, 30)"

definition trebleRange :: "nat \<times> nat" where
  "trebleRange = (30, 80)"

definition bassGain :: real where
  "bassGain = 1.2"

definition midGain :: real where
  "midGain = 1.7"

definition trebleGain :: real where
  "trebleGain = 2.2"

text \<open>
  \<open>getMaxForRange\<close>: the loop \<open>for (let i = start; i < Math.min(end, dataArray.length); i++)\<close>
  with its running \<open>max\<close>, as a recursion on the loop counter.
\<close>

function getMaxLoop :: "snapshot \<Rightarrow> nat \<Rightarrow> nat \<Rightarrow> nat \<Rightarrow> nat" where
  "getMaxLoop dataArray end' i mx =
     (if i < min end' (length dataArray)
      then getMaxLoop dataArray end' (Suc i)
             (if unat (dataArray ! i) > mx then unat (dataArray ! i) else mx)
      else mx)"
  by pat_completeness auto
termination
  by (relation "measure (\<lambda>(dataArray, end', i, mx). min end' (length dataArray) - i)") auto

definition getMaxForRange :: "snapshot \<Rightarrow> nat \<Rightarrow> nat \<Rightarrow> nat" where
  "getMaxForRange dataArray start end' = getMaxLoop dataArray end' start 0"

definition compressDynamicRange :: "nat \<Rightarrow> real" where
  "compressDynamicRange val = sqrt (real val / 255) * 100"

text \<open>
  The three gained band values \<open>[bassVal, midVal, trebleVal]\<close> of one frame.
\<close>

definition bandVals :: "snapshot \<Rightarrow> real list" where
  "bandVals dataArray =
     (let bassRaw = getMaxForRange dataArray (fst bassRange) (snd bassRange);
          midRaw = getMaxForRange dataArray (fst midRange) (snd midRange);
          trebleRaw = getMaxForRange dataArray (fst trebleRange) (snd trebleRange);
          bassVal = compressDynamicRange bassRaw * bassGain;
          midVal = compressDynamicRange midRaw * midGain;
          trebleVal = compressDynamicRange trebleRaw * trebleGain
      in [bassVal, midVal, trebleVal])"

text \<open>
  The smoothing step \<open>recentMaxValues.current.map((val, idx) => ...)\<close>. The callback
  reads \<open>[bassVal, midVal, trebleVal][idx]\<close>; the array it maps over has three entries in
  every reachable state (it is created as \<open>[0, 0, 0]\<close> and only ever replaced by a map over
  itself). The model pairs each entry with the band value of the same index; on an array
  with more than three entries the JavaScript would read \<open>undefined\<close> and store NaN,
  which a real cannot hold, and the model leaves those entries out. Every theorem below
  is about three-entry states.
\<close>

definition smoothMax :: "real \<Rightarrow> real \<Rightarrow> real" where
  "smoothMax val newVal = val + (max val newVal - val) * adaptationRate"

definition updateRecentMax :: "real list \<Rightarrow> real list \<Rightarrow> real list" where
  "updateRecentMax recent vals = map (\<lambda>(val, newVal). smoothMax val newVal) (zip recent vals)"

text \<open>
  \<open>adaptiveGain(value, idx)\<close>, reading the already updated \<open>recentMaxValues\<close>. An index
  past the end reads \<open>undefined\<close>, for which \<open>maxVal > 80\<close> is false and the scale is 1.
\<close>

definition adaptiveGain :: "real list \<Rightarrow> real \<Rightarrow> nat \<Rightarrow> real" where
  "adaptiveGain recent val idx =
     (let adaptiveScale =
            (if idx < length recent \<and> recent ! idx > 80 then 80 / (recent ! idx) else 1)
      in val * adaptiveScale)"

text \<open>
  One run of the frame callback \<open>update\<close> on the snapshot the analyser delivered: it
  re-arms the animation frame, updates the running maxima and sets the amplitudes.
\<close>

definition update :: "snapshot \<Rightarrow> visualizer \<Rightarrow> visualizer" where
  "update dataArray s =
     (let vals = bandVals dataArray;
          recent = updateRecentMax (recentMaxValues s) vals
      in s\<lparr>animationFrameRef := True,
           recentMaxValues := recent,
           amplitudes :=
             [min 90 (max 5 (adaptiveGain recent (vals ! 0) 0)),
              min 90 (max 5 (adaptiveGain recent (vals ! 1) 1)),
              min 90 (max 5 (adaptiveGain recent (vals ! 2) 2))]\<rparr>)"

text \<open>
  \<open>stopVisualization\<close>: cancels the pending frame, disconnects the source, closes the
  audio context and sets the amplitudes to \<open>[0, 0, 0]\<close>. It assigns neither
  \<open>recentMaxValues\<close> nor \<open>analyserRef\<close>.
\<close>

definition stopVisualization :: "visualizer \<Rightarrow> visualizer" where
  "stopVisualization s =
     s\<lparr>animationFrameRef := False, sourceRef := False, audioContextRef := False,
       amplitudes := [0, 0, 0]\<rparr>"

text \<open>
  \<open>startVisualization\<close> when the microphone is granted: it sets the three resource refs
  and calls \<open>updateAmplitudes\<close>, whose frames are the \<open>update\<close> steps. When access is
  refused the error is logged and nothing changes.
\<close>

definition startVisualization :: "bool \<Rightarrow> visualizer \<Rightarrow> visualizer" where
  "startVisualization granted s =
     (if granted then s\<lparr>audioContextRef := True, analyserRef := True, sourceRef := True\<rparr>
      else s)"

text \<open>A run of frames: the callback applied to each snapshot in turn.\<close>

fun frames :: "snapshot list \<Rightarrow> visualizer \<Rightarrow> visualizer" where
  "frames [] s = s"
| "frames (d # ds) s = frames ds (update d s)"

subsection \<open>The frame step as the specification words it\<close>

text \<open>
  The specification's description of one band: the maximum magnitude over the bins of
  the band's range (0 when the snapshot has no bin there), compressed, gained, smoothed
  into the running maximum, scaled down when the updated running maximum exceeds 80, and
  clamped to [5, 90].
\<close>

definition spec_bandRaw :: "snapshot \<Rightarrow> nat \<Rightarrow> nat \<Rightarrow> nat" where
  "spec_bandRaw snap lo hi = Max (set (0 # map unat (take (hi - lo) (drop lo snap))))"

definition spec_clamp :: "real \<Rightarrow> real \<Rightarrow> real \<Rightarrow> real" where
  "spec_clamp x lo hi = max lo (min hi x)"

definition spec_bandValue :: "snapshot \<Rightarrow> nat \<Rightarrow> nat \<Rightarrow> real \<Rightarrow> real" where
  "spec_bandValue snap lo hi gain = sqrt (real (spec_bandRaw snap lo hi) / 255) * 100 * gain"

definition spec_runningMax :: "real \<Rightarrow> real \<Rightarrow> real" where
  "spec_runningMax runningMax v = runningMax + (max runningMax v - runningMax) * 0.05"

definition spec_band :: "snapshot \<Rightarrow> nat \<Rightarrow> nat \<Rightarrow> real \<Rightarrow> real \<Rightarrow> real \<times> real" where
  "spec_band snap lo hi gain runningMax =
     (let v = spec_bandValue snap lo hi gain;
          runningMax' = spec_runningMax runningMax v;
          scaled = v * (if runningMax' > 80 then 80 / runningMax' else 1)
      in (spec_clamp scaled 5 90, runningMax'))"

text \<open>
  The raw maximum and the gain of the band with index \<open>idx\<close> (0 bass, 1 mid, 2 treble),
  to state properties for all three bands at once.
\<close>

definition bandRaw :: "snapshot \<Rightarrow> nat \<Rightarrow> nat" where
  "bandRaw dataArray idx =
     [getMaxForRange dataArray (fst bassRange) (snd bassRange),
      getMaxForRange dataArray (fst midRange) (snd midRange),
      getMaxForRange dataArray (fst trebleRange) (snd trebleRange)] ! idx"

definition bandGain :: "nat \<Rightarrow> real" where
  "bandGain idx = [bassGain, midGain, trebleGain] ! idx"

text \<open>
  Two snapshots of the analyser's 128 bins used as concrete inputs: every bin at full
  magnitude, and only the ten bass bins at full magnitude.
\<close>

definition loudSnapshot :: snapshot where
  "loudSnapshot = replicate 128 255"

definition bassOnlySnapshot :: snapshot where
  "bassOnlySnapshot = replicate 10 255 @ replicate 118 0"

section \<open>The audio player (AudioPlayer, src/unnamed/part_001)\<close>

text \<open>
  The player only stores and tests its numbers (the element's duration and position, the
  slider's volume), so they are modelled with their non-finite values: a JavaScript
  number is a real, an infinity or NaN.
\<close>

datatype jsnum = Num real | PosInf | NegInf | NaN

definition isFinite :: "jsnum \<Rightarrow> bool" where
  "isFinite x = (case x of Num r \<Rightarrow> True | _ \<Rightarrow> False)"

definition isNaN :: "jsnum \<Rightarrow> bool" where
  "isNaN x = (x = NaN)"

text \<open>The comparison \<open>x > 0\<close> on a JavaScript number.\<close>

definition positive :: "jsnum \<Rightarrow> bool" where
  "positive x = (case x of Num r \<Rightarrow> 0 < r | PosInf \<Rightarrow> True | _ \<Rightarrow> False)"

text \<open>
  The component's React state, the ref to the audio element (the model keeps the
  element's \<open>src\<close>), and one more field for what the event handlers see. The handlers are
  created inside the effect that runs when \<open>audioUrl\<close> changes, and they test the
  variable \<open>isReady\<close> of the render that scheduled that effect: a constant of their
  closure, which later \<open>setIsReady\<close> calls do not change. \<open>closureIsReady\<close> holds that
  constant.
\<close>

record player =
  isPlaying :: bool
  currentTime :: jsnum
  duration :: jsnum
  isReady :: bool
  loading :: bool
  volume :: jsnum
  isMuted :: bool
  audioRef :: "string option"
  closureIsReady :: bool

definition initialPlayer :: player where
  "initialPlayer =
     \<lparr>isPlaying = False, currentTime = Num 0, duration = Num 0, isReady = False,
      loading = True, volume = Num 0.8, isMuted = False, audioRef = None,
      closureIsReady = False\<rparr>"

text \<open>
  The effect on \<open>audioUrl\<close> (lines 24-144): nothing for an empty URL; otherwise a new
  element with the handlers below becomes the ref, and the state is reset. The duration
  is not reset. The handlers close over the \<open>isReady\<close> of the state the effect ran in.
\<close>

definition loadAudio :: "string \<Rightarrow> player \<Rightarrow> player" where
  "loadAudio audioUrl s =
     (if audioUrl = [] then s
      else s\<lparr>loading := True, audioRef := Some audioUrl, isPlaying := False,
             currentTime := Num 0, isReady := False, closureIsReady := isReady s\<rparr>)"

text \<open>
  The four readiness handlers. The argument \<open>d\<close> is \<open>audio.duration\<close> as the element
  reports it when the event fires (and \<open>t\<close> is \<open>audio.currentTime\<close>).
\<close>

definition handleLoadedMetadata :: "jsnum \<Rightarrow> player \<Rightarrow> player" where
  "handleLoadedMetadata d s =
     (if isFinite d \<and> \<not> isNaN d
      then s\<lparr>duration := d, isReady := True, loading := False\<rparr>
      else s)"

definition handleLoadedData :: "jsnum \<Rightarrow> player \<Rightarrow> player" where
  "handleLoadedData d s =
     (if \<not> closureIsReady s \<and> isFinite d \<and> \<not> isNaN d
      then s\<lparr>duration := d, isReady := True, loading := False\<rparr>
      else s)"

definition handleCanPlay :: "jsnum \<Rightarrow> player \<Rightarrow> player" where
  "handleCanPlay d s =
     (let s1 = s\<lparr>loading := False\<rparr>
      in if \<not> closureIsReady s \<and> isFinite d \<and> \<not> isNaN d
         then s1\<lparr>duration := d, isReady := True\<rparr>
         else s1)"

definition handleTimeUpdate :: "jsnum \<Rightarrow> jsnum \<Rightarrow> player \<Rightarrow> player" where
  "handleTimeUpdate t d s =
     (let s1 = s\<lparr>currentTime := t\<rparr>
      in if \<not> closureIsReady s \<and> isFinite d \<and> \<not> isNaN d \<and> positive d
         then s1\<lparr>duration := d, isReady := True\<rparr>
         else s1)"

definition handleEnded :: "player \<Rightarrow> player" where
  "handleEnded s = s\<lparr>isPlaying := False, currentTime := Num 0\<rparr>"

definition handleError :: "player \<Rightarrow> player" where
  "handleError s = s\<lparr>loading := False, isReady := False\<rparr>"

definition togglePlayPause :: "player \<Rightarrow> player" where
  "togglePlayPause s = (if \<not> isReady s \<or> loading s then s else s\<lparr>isPlaying := \<not> isPlaying s\<rparr>)"

definition toggleMute :: "player \<Rightarrow> player" where
  "toggleMute s = (if audioRef s = None then s else s\<lparr>isMuted := \<not> isMuted s\<rparr>)"

text \<open>
  \<open>handleVolumeChange\<close>: \<open>newVolume\<close> is the number \<open>parseFloat\<close> returned for the
  slider's value. The handler is attached only to the volume slider
  \<open><input type="range" min="0" max="1" step="0.05">\<close> (lines 312-319), whose value the
  browser keeps between 0 and 1.
\<close>

definition handleVolumeChange :: "jsnum \<Rightarrow> player \<Rightarrow> player" where
  "handleVolumeChange newVolume s =
     (if audioRef s = None then s
      else s\<lparr>volume := newVolume, isMuted := (newVolume = Num 0)\<rparr>)"

text \<open>
  The readiness signals as events, each carrying the duration the element reports, and
  their delivery to the handlers.
\<close>

datatype signal =
  LoadedMetadata jsnum
| LoadedData jsnum
| CanPlay jsnum
| TimeUpdate jsnum jsnum

fun signalDuration :: "signal \<Rightarrow> jsnum" where
  "signalDuration (LoadedMetadata d) = d"
| "signalDuration (LoadedData d) = d"
| "signalDuration (CanPlay d) = d"
| "signalDuration (TimeUpdate t d) = d"

fun deliver :: "signal \<Rightarrow> player \<Rightarrow> player" where
  "deliver (LoadedMetadata d) s = handleLoadedMetadata d s"
| "deliver (LoadedData d) s = handleLoadedData d s"
| "deliver (CanPlay d) s = handleCanPlay d s"
| "deliver (TimeUpdate t d) s = handleTimeUpdate t d s"

fun deliverAll :: "signal list \<Rightarrow> player \<Rightarrow> player" where
  "deliverAll [] s = s"
| "deliverAll (x # xs) s = deliverAll xs (deliver x s)"

text \<open>A signal carries a finite duration.\<close>

definition carriesFinite :: "signal \<Rightarrow> bool" where
  "carriesFinite x = (isFinite (signalDuration x) \<and> \<not> isNaN (signalDuration x))"

text \<open>
  States used as concrete inputs: the first URL loaded into a fresh component; that
  session made ready by its metadata and then playing; and a second URL loaded after the
  first session became ready.
\<close>

definition firstSession :: player where
  "firstSession = loadAudio ''blob:a'' initialPlayer"

definition playingSession :: player where
  "playingSession = togglePlayPause (handleLoadedMetadata (Num 3) firstSession)"

definition secondSession :: player where
  "secondSession = loadAudio ''blob:b'' (handleLoadedMetadata (Num 3) firstSession)"

text \<open>The specification's clamp of a volume to [0, 1].\<close>

definition spec_clampVolume :: "real \<Rightarrow> real" where
  "spec_clampVolume v = max 0 (min 1 v)"

section \<open>String helpers\<close>

text \<open>
  ASCII lower-casing (used by \<open>toLowerCase\<close> on a file extension and by the \<open>Blob\<close>
  constructor on a type), \<open>String.includes\<close>, and the part of a name after its last dot.
\<close>

definition toLowerChar :: "char \<Rightarrow> char" where
  "toLowerChar c =
     (let n = (of_char c :: nat) in if 65 \<le> n \<and> n \<le> 90 then char_of (n + 32) else c)"

definition toLowerCase :: "string \<Rightarrow> string" where
  "toLowerCase s = map toLowerChar s"

fun strIncludes :: "string \<Rightarrow> string \<Rightarrow> bool" where
  "strIncludes [] sub = (sub = [])"
| "strIncludes (c # cs) sub = (take (length sub) (c # cs) = sub \<or> strIncludes cs sub)"

definition lastPart :: "string \<Rightarrow> string" where
  "lastPart s = rev (takeWhile (\<lambda>c. c \<noteq> CHR ''.'') (rev s))"

section \<open>The recorder (AudioRecorder, recorder.tsx lines 17-226)\<close>

text \<open>
  A blob is modelled by its size and its type. The runtime is what the browser decides:
  whether \<open>getUserMedia\<close> grants the microphone, which formats
  \<open>MediaRecorder.isTypeSupported\<close> accepts, and what a recorder's \<open>mimeType\<close> attribute
  reports when the code reads it, as a function of the type the recorder was constructed
  with (\<open>None\<close> for a recorder constructed without options).
\<close>

record blob =
  blobSize :: nat
  blobType :: string

record mediaRecorder =
  requestedType :: "string option"
  mimeType :: string
  active :: bool

record runtime =
  micGranted :: bool
  isTypeSupported :: "string \<Rightarrow> bool"
  recorderMimeType :: "string option \<Rightarrow> string"

text \<open>
  The component's state and refs. \<open>completed\<close> is the blob last handed to
  \<open>onRecordingComplete\<close>.
\<close>

record recorder =
  isRecording :: bool
  recordingTime :: nat
  isStreaming :: bool
  mediaRecorderRef :: "mediaRecorder option"
  chunksRef :: "blob list"
  timerRef :: bool
  streamRef :: bool
  tracksLive :: bool
  completed :: "blob option"

definition initialRecorder :: recorder where
  "initialRecorder =
     \<lparr>isRecording = False, recordingTime = 0, isStreaming = False, mediaRecorderRef = None,
      chunksRef = [], timerRef = False, streamRef = False, tracksLive = False,
      completed = None\<rparr>"

definition formats :: "string list" where
  "formats =
     [''audio/webm'', ''audio/ogg'', ''audio/mp3'', ''audio/mp4'', ''audio/wav'',
      ''audio/ogg;codecs=opus'', ''audio/mpeg'', ''audio/mpga'', ''audio/oga'',
      ''audio/flac'', ''audio/m4a'']"

text \<open>
  The loop \<open>for (const format of formats) { if (supported) { mimeType = format; break } }\<close>
  starting from \<open>mimeType = ''\<close>.
\<close>

fun firstSupported :: "(string \<Rightarrow> bool) \<Rightarrow> string list \<Rightarrow> string" where
  "firstSupported supported [] = []"
| "firstSupported supported (format # rest) =
     (if supported format then format else firstSupported supported rest)"

text \<open>
  \<open>startRecording\<close>: when the microphone is refused the error is caught and logged, and
  nothing changes. Otherwise the recorder is constructed with the selected type, or
  without options when no candidate is supported, and started.
\<close>

definition startRecording :: "runtime \<Rightarrow> recorder \<Rightarrow> recorder" where
  "startRecording rt s =
     (if \<not> micGranted rt then s
      else
        let mimeType' = firstSupported (isTypeSupported rt) formats;
            mediaRecorder =
              (if mimeType' \<noteq> []
               then \<lparr>requestedType = Some mimeType',
                     mimeType = recorderMimeType rt (Some mimeType'), active = False\<rparr>
               else \<lparr>requestedType = None,
                     mimeType = recorderMimeType rt None, active = False\<rparr>)
        in s\<lparr>streamRef := True, tracksLive := True,
             mediaRecorderRef := Some (mediaRecorder\<lparr>active := True\<rparr>),
             chunksRef := [], isRecording := True, recordingTime := 0, timerRef := True,
             isStreaming := True\<rparr>)"

text \<open>The recorder's \<open>ondataavailable\<close>: an empty fragment is dropped.\<close>

definition ondataavailable :: "blob \<Rightarrow> recorder \<Rightarrow> recorder" where
  "ondataavailable e s = (if blobSize e > 0 then s\<lparr>chunksRef := chunksRef s @ [e]\<rparr> else s)"

text \<open>The one-second timer's callback, which runs while the interval is set.\<close>

definition tick :: "recorder \<Rightarrow> recorder" where
  "tick s = (if timerRef s then s\<lparr>recordingTime := recordingTime s + 1\<rparr> else s)"

text \<open>
  \<open>new Blob(parts, { type })\<close>: the sizes add up; the type is emptied when it has a
  character outside U+0020..U+007E and lower-cased otherwise.
\<close>

definition blobTypeOf :: "string \<Rightarrow> string" where
  "blobTypeOf ty =
     (if list_ex (\<lambda>c. (of_char c :: nat) < 32 \<or> 126 < (of_char c :: nat)) ty then []
      else map toLowerChar ty)"

definition newBlob :: "blob list \<Rightarrow> string \<Rightarrow> blob" where
  "newBlob parts ty = \<lparr>blobSize = sum_list (map blobSize parts), blobType = blobTypeOf ty\<rparr>"

text \<open>
  The recorder's \<open>onstop\<close>: one blob from the chunks, typed with what the recorder's
  \<open>mimeType\<close> attribute reports, handed to \<open>onRecordingComplete\<close>.
\<close>

definition onstop :: "recorder \<Rightarrow> recorder" where
  "onstop s =
     (case mediaRecorderRef s of
        None \<Rightarrow> s
      | Some mediaRecorder \<Rightarrow>
          s\<lparr>completed := Some (newBlob (chunksRef s) (mimeType mediaRecorder))\<rparr>)"

text \<open>
  \<open>stopRecording\<close>. The call \<open>mediaRecorderRef.current.stop()\<close> makes an active recorder
  inactive and has the browser fire \<open>dataavailable\<close> with the data gathered since the
  last fragment (\<open>final\<close>) and then \<open>stop\<close>; on a recorder that is already inactive it
  fires nothing. The handler's own updates follow in both cases.
\<close>

definition stopRecording :: "blob \<Rightarrow> recorder \<Rightarrow> recorder" where
  "stopRecording final s =
     (case mediaRecorderRef s of
        None \<Rightarrow> s
      | Some mediaRecorder \<Rightarrow>
          if isRecording s
          then (let s' = s\<lparr>mediaRecorderRef := Some (mediaRecorder\<lparr>active := False\<rparr>),
                            isRecording := False, isStreaming := False, timerRef := False,
                            tracksLive := False\<rparr>
                in if active mediaRecorder then onstop (ondataavailable final s') else s')
          else s)"

text \<open>
  What happens to the component after the start, as events: a timer tick, a one-second
  fragment (which only an active recorder delivers), and a click on Stop.
\<close>

datatype event = Tick | DataAvailable blob | StopClicked blob

fun step :: "event \<Rightarrow> recorder \<Rightarrow> recorder" where
  "step Tick s = tick s"
| "step (DataAvailable e) s =
     (case mediaRecorderRef s of
        None \<Rightarrow> s
      | Some mediaRecorder \<Rightarrow> if active mediaRecorder then ondataavailable e s else s)"
| "step (StopClicked final) s = stopRecording final s"

fun run :: "event list \<Rightarrow> recorder \<Rightarrow> recorder" where
  "run [] s = s"
| "run (e # es) s = run es (step e s)"

text \<open>
  The scenario of three elapsed seconds, from any earlier state of the component: after
  the start, each second brings one fragment and one tick (\<open>threeSecondsRunning\<close>); then
  Stop is clicked (\<open>threeSeconds\<close>).
\<close>

definition threeSecondsRunning :: "runtime \<Rightarrow> blob \<Rightarrow> blob \<Rightarrow> blob \<Rightarrow> recorder \<Rightarrow> recorder" where
  "threeSecondsRunning rt c1 c2 c3 s =
     run [DataAvailable c1, Tick, DataAvailable c2, Tick, DataAvailable c3, Tick]
       (startRecording rt s)"

definition threeSeconds ::
  "runtime \<Rightarrow> blob \<Rightarrow> blob \<Rightarrow> blob \<Rightarrow> blob \<Rightarrow> recorder \<Rightarrow> recorder" where
  "threeSeconds rt c1 c2 c3 final s =
     run [DataAvailable c1, Tick, DataAvailable c2, Tick, DataAvailable c3, Tick,
          StopClicked final]
       (startRecording rt s)"

text \<open>
  The specification's choice of the format: the first supported candidate of the list,
  none (the runtime's default) when no candidate is supported.
\<close>

definition spec_firstSupported :: "runtime \<Rightarrow> string option" where
  "spec_firstSupported rt = find (isTypeSupported rt) formats"

text \<open>
  Concrete inputs: a runtime that supports ogg and mp4 only and reports the requested
  type, one that supports no candidate, and fragments of a given size.
\<close>

definition oggRuntime :: runtime where
  "oggRuntime =
     \<lparr>micGranted = True, isTypeSupported = (\<lambda>f. f = ''audio/ogg'' \<or> f = ''audio/mp4''),
      recorderMimeType = (\<lambda>r. case r of Some f \<Rightarrow> f | None \<Rightarrow> ''audio/x-default'')\<rparr>"

definition bareRuntime :: runtime where
  "bareRuntime =
     \<lparr>micGranted = True, isTypeSupported = (\<lambda>f. False),
      recorderMimeType = (\<lambda>r. case r of Some f \<Rightarrow> f | None \<Rightarrow> ''Audio/X-Default'')\<rparr>"

definition fragment :: "nat \<Rightarrow> blob" where
  "fragment n = \<lparr>blobSize = n, blobType = ''audio/ogg''\<rparr>"

section \<open>The transcription gateway (transcribeAudio, src/unnamed/part_000)\<close>

text \<open>
  The form data holds at most a file under \<open>audio\<close> and a string under
  \<open>useTestAudio\<close>. The provider's \<open>transcribe\<close> is a parameter of the model: given the
  audio (the fallback URL, or the bytes named \<open>audio.ext\<close>) and the \<open>fileName\<close> option it
  either throws an error or returns a transcript.
\<close>

record jsFile =
  fileName :: string
  fileType :: string
  fileBytes :: "8 word list"

record formData =
  audio :: "jsFile option"
  useTestAudio :: "string option"

datatype audioInput = Url string | Buffer "8 word list" string

record transcript =
  resultText :: string
  durationInSeconds :: real
  segments :: "string list"
  language :: string

record thrown =
  errName :: string
  errMessage :: string

type_synonym provider = "audioInput \<Rightarrow> string \<Rightarrow> thrown + transcript"

text \<open>The two shapes the gateway returns: the transcript, or \<open>{ error }\<close>.\<close>

datatype reply = Transcribed transcript | Failed string

definition TEST_MP3_URL :: string where
  "TEST_MP3_URL = ''https://download.samplelib.com/mp3/sample-3s.mp3''"

definition disclaimer :: string where
  "disclaimer = '' (NOTE: This is from a test audio, not your recording)''"

text \<open>
  Reading \<open>audioFile.name\<close> when \<open>audioFile\<close> is \<open>null\<close> throws a TypeError (the message
  is the wording of Node's engine).
\<close>

definition nullNameError :: thrown where
  "nullNameError =
     \<lparr>errName = ''TypeError'',
      errMessage = ''Cannot read properties of null (reading 'name')''\<rparr>"

definition fileExtension :: "jsFile \<Rightarrow> string" where
  "fileExtension audioFile =
     (if fileName audioFile \<noteq> [] \<and> strIncludes (fileName audioFile) ''.''
      then toLowerCase (lastPart (fileName audioFile))
      else if fileType audioFile \<noteq> []
      then (if strIncludes (fileType audioFile) ''webm'' then ''webm''
            else if strIncludes (fileType audioFile) ''mp3'' then ''mp3''
            else if strIncludes (fileType audioFile) ''wav'' then ''wav''
            else ''mp3'')
      else ''mp3'')"

text \<open>
  The transcription of the fallback sample, used by both the flag's branch and the inner
  \<open>catch\<close>: the argument object reads \<open>audioFile.name\<close> before the provider is called.
  The result carries the calls made to the provider, in order.
\<close>

definition transcribeTest ::
  "provider \<Rightarrow> jsFile option \<Rightarrow> audioInput list \<Rightarrow> audioInput list \<times> (thrown + reply)" where
  "transcribeTest transcribe audioFile calls =
     (case audioFile of
        None \<Rightarrow> (calls, Inl nullNameError)
      | Some f \<Rightarrow>
          (case transcribe (Url TEST_MP3_URL) (fileName f) of
             Inl e \<Rightarrow> (calls @ [Url TEST_MP3_URL], Inl e)
           | Inr result \<Rightarrow>
               (calls @ [Url TEST_MP3_URL],
                Inr (Transcribed (result\<lparr>resultText := resultText result @ disclaimer\<rparr>)))))"

text \<open>The body of the outer \<open>try\<close>: \<open>Inl\<close> is an error thrown out of it.\<close>

definition transcribeBody ::
  "provider \<Rightarrow> formData \<Rightarrow> audioInput list \<times> (thrown + reply)" where
  "transcribeBody transcribe fd =
     (let audioFile = audio fd;
          useTest = (useTestAudio fd = Some ''true'')
      in if audioFile = None \<and> \<not> useTest then ([], Inr (Failed ''No audio file provided''))
         else if useTest then transcribeTest transcribe audioFile []
         else
           (case audioFile of
              None \<Rightarrow> ([], Inl nullNameError)
            | Some f \<Rightarrow>
                (let audioData = Buffer (fileBytes f) (''audio.'' @ fileExtension f)
                 in case transcribe audioData (fileName f) of
                      Inr result \<Rightarrow> ([audioData], Inr (Transcribed result))
                    | Inl fileError \<Rightarrow> transcribeTest transcribe audioFile [audioData])))"

text \<open>
  The outer \<open>catch\<close> turns a thrown error into \<open>{ error }\<close>, with the error's message or,
  when that is empty, the error printed (its name).
\<close>

definition describe :: "thrown \<Rightarrow> string" where
  "describe e = (if errMessage e \<noteq> [] then errMessage e else errName e)"

definition providerCalls :: "provider \<Rightarrow> formData \<Rightarrow> audioInput list" where
  "providerCalls transcribe fd = fst (transcribeBody transcribe fd)"

definition transcribeAudio :: "provider \<Rightarrow> formData \<Rightarrow> reply" where
  "transcribeAudio transcribe fd =
     (case snd (transcribeBody transcribe fd) of
        Inr r \<Rightarrow> r
      | Inl e \<Rightarrow> Failed (''Failed to transcribe audio: '' @ describe e))"

text \<open>
  Concrete inputs: a recording, the form data of the two calls the page makes, a
  provider that rejects every request, and one that rejects uploaded bytes and
  transcribes the fallback sample.
\<close>

definition recordingFile :: jsFile where
  "recordingFile = \<lparr>fileName = ''recording.webm'', fileType = ''audio/webm'', fileBytes = [26, 69]\<rparr>"

definition recordingForm :: formData where
  "recordingForm = \<lparr>audio = Some recordingFile, useTestAudio = None\<rparr>"

definition flagOnlyForm :: formData where
  "flagOnlyForm = \<lparr>audio = None, useTestAudio = Some ''true''\<rparr>"

definition rejectingProvider :: provider where
  "rejectingProvider input name = Inl \<lparr>errName = ''Error'', errMessage = ''Unauthorized''\<rparr>"

definition sampleTranscript :: transcript where
  "sampleTranscript =
     \<lparr>resultText = ''Hello'', durationInSeconds = 3, segments = [], language = ''en''\<rparr>"

definition pickyProvider :: provider where
  "pickyProvider input name =
     (case input of
        Url u \<Rightarrow> Inr sampleTranscript
      | Buffer bytes n \<Rightarrow> Inl \<lparr>errName = ''Error'', errMessage = ''Invalid file format''\<rparr>)"

section \<open>Properties of the visualizer\<close>

lemma Max_insert_max:
  fixes a b :: nat
  shows "finite A \<Longrightarrow> Max (insert (max a b) A) = Max (insert a (insert b A))"
  by (cases "A = {}") (simp_all add: max.assoc)

lemma getMaxLoop_Max:
  "getMaxLoop d e i mx = Max (set (mx # map unat (take (e - i) (drop i d))))"
proof (induction d e i mx rule: getMaxLoop.induct)
  case (1 d e i mx)
  show ?case
  proof (cases "i < min e (length d)")
    case True
    then have ie: "i < e" and il: "i < length d" by simp_all
    have dr: "drop i d = d ! i # drop (Suc i) d"
      using il by (simp add: Cons_nth_drop_Suc)
    have ei: "e - i = Suc (e - Suc i)" using ie by simp
    have tk: "take (e - i) (drop i d) = d ! i # take (e - Suc i) (drop (Suc i) d)"
      unfolding ei dr by simp
    have "getMaxLoop d e i mx =
            getMaxLoop d e (Suc i) (if unat (d ! i) > mx then unat (d ! i) else mx)"
      using True by (subst getMaxLoop.simps) simp
    also have "\<dots> = Max (set ((if unat (d ! i) > mx then unat (d ! i) else mx)
                      # map unat (take (e - Suc i) (drop (Suc i) d))))"
      using "1.IH" [OF True] .
    also have "\<dots> = Max (insert (max mx (unat (d ! i)))
                      (set (map unat (take (e - Suc i) (drop (Suc i) d)))))"
      by (simp add: max_def)
    also have "\<dots> = Max (insert mx (insert (unat (d ! i))
                      (set (map unat (take (e - Suc i) (drop (Suc i) d))))))"
      by (rule Max_insert_max) simp
    also have "\<dots> = Max (set (mx # map unat (take (e - i) (drop i d))))"
      unfolding tk by simp
    finally show ?thesis .
  next
    case False
    then have "e - i = 0 \<or> drop i d = []" by auto
    then have tk: "take (e - i) (drop i d) = []" by auto
    have "getMaxLoop d e i mx = mx"
      using False by (subst getMaxLoop.simps) simp
    then show ?thesis unfolding tk by simp
  qed
qed

lemma getMaxForRange_spec: "getMaxForRange d lo hi = spec_bandRaw d lo hi"
  unfolding getMaxForRange_def spec_bandRaw_def getMaxLoop_Max by (simp only: minus_nat.diff_0)


lemma length_bandVals: "length (bandVals d) = 3"
  by (simp add: bandVals_def Let_def)

lemma bandVals_nth:
  "idx < 3 \<Longrightarrow> bandVals d ! idx = compressDynamicRange (bandRaw d idx) * bandGain idx"
proof -
  assume "idx < 3"
  then consider "idx = 0" | "idx = 1" | "idx = 2" by linarith
  then show ?thesis
    by cases (simp_all add: bandVals_def bandRaw_def bandGain_def Let_def)
qed

lemma update_recent:
  "recentMaxValues (update d s) = updateRecentMax (recentMaxValues s) (bandVals d)"
  by (simp add: update_def Let_def)

lemma updateRecentMax_length:
  "length recent = 3 \<Longrightarrow> length (updateRecentMax recent (bandVals d)) = 3"
  by (simp add: updateRecentMax_def length_bandVals)

lemma updateRecentMax_nth:
  "idx < 3 \<Longrightarrow> length recent = 3 \<Longrightarrow>
   updateRecentMax recent (bandVals d) ! idx = smoothMax (recent ! idx) (bandVals d ! idx)"
  by (simp add: updateRecentMax_def length_bandVals)

lemma smoothMax_ge: "val \<le> smoothMax val newVal"
  by (simp add: smoothMax_def adaptationRate_def)

lemma update_amplitudes_range:
  "a \<in> set (amplitudes (update d s)) \<Longrightarrow> 5 \<le> a \<and> a \<le> 90"
  unfolding update_def Let_def by auto

lemma compress_255: "compressDynamicRange 255 = 100"
  by (simp add: compressDynamicRange_def)

lemma compress_0: "compressDynamicRange 0 = 0"
  by (simp add: compressDynamicRange_def)

lemma getMax_loud: "getMaxForRange loudSnapshot 0 10 = 255"
  by (simp add: getMaxForRange_spec spec_bandRaw_def loudSnapshot_def)

lemma getMax_bassOnly:
  "getMaxForRange bassOnlySnapshot 0 10 = 255"
  "getMaxForRange bassOnlySnapshot 10 30 = 0"
  "getMaxForRange bassOnlySnapshot 30 80 = 0"
  by (simp_all add: getMaxForRange_spec spec_bandRaw_def bassOnlySnapshot_def)

lemma frames_length:
  "length (recentMaxValues s) = 3 \<Longrightarrow> length (recentMaxValues (frames ds s)) = 3"
  by (induction ds arbitrary: s) (simp_all add: update_recent updateRecentMax_length)

lemma smoothMax_below:
  "val \<le> v \<Longrightarrow> v - smoothMax val v = (1 - adaptationRate) * (v - val)"
  by (simp add: smoothMax_def max_def algebra_simps)

lemma smoothMax_above: "v \<le> val \<Longrightarrow> smoothMax val v = val"
  by (simp add: smoothMax_def max_def)

lemma smoothMax_lt: "val < v \<Longrightarrow> smoothMax val v < v"
  unfolding smoothMax_def max_def adaptationRate_def by (simp add: field_simps)

lemma frames_closed_form:
  assumes "length (recentMaxValues s) = 3" and "idx < 3"
    and "\<forall>snap\<in>set snaps. bandRaw snap idx = R"
  shows "recentMaxValues (frames snaps s) ! idx =
     (let v = compressDynamicRange R * bandGain idx; r = recentMaxValues s ! idx
      in if v \<le> r then r else v - (1 - adaptationRate) ^ length snaps * (v - r))"
  using assms
proof (induction snaps arbitrary: s)
  case Nil
  then show ?case by (simp add: Let_def)
next
  case (Cons d ds)
  let ?v = "compressDynamicRange R * bandGain idx"
  let ?r = "recentMaxValues s ! idx"
  have len: "length (recentMaxValues (update d s)) = 3"
    using Cons.prems(1) by (simp add: update_recent updateRecentMax_length)
  have bv: "bandVals d ! idx = ?v"
    using Cons.prems(2,3) by (simp add: bandVals_nth)
  have r1: "recentMaxValues (update d s) ! idx = smoothMax ?r ?v"
    using Cons.prems(1,2) bv by (simp add: update_recent updateRecentMax_nth)
  have rest: "\<forall>snap\<in>set ds. bandRaw snap idx = R" using Cons.prems(3) by simp
  have IH: "recentMaxValues (frames ds (update d s)) ! idx =
     (if ?v \<le> smoothMax ?r ?v then smoothMax ?r ?v
      else ?v - (1 - adaptationRate) ^ length ds * (?v - smoothMax ?r ?v))"
    using Cons.IH [OF len Cons.prems(2) rest] by (simp add: Let_def r1)
  show ?case
  proof (cases "?v \<le> ?r")
    case True
    then have "smoothMax ?r ?v = ?r" by (rule smoothMax_above)
    then show ?thesis using True IH by (simp add: Let_def)
  next
    case False
    then have le: "?r \<le> ?v" by simp
    have gap: "?v - smoothMax ?r ?v = (1 - adaptationRate) * (?v - ?r)"
      using le by (rule smoothMax_below)
    have lt: "smoothMax ?r ?v < ?v"
      using False by (intro smoothMax_lt) simp
    have "recentMaxValues (frames ds (update d s)) ! idx =
            ?v - (1 - adaptationRate) ^ length ds * (?v - smoothMax ?r ?v)"
      using IH lt by simp
    also have "\<dots> = ?v - (1 - adaptationRate) ^ length (d # ds) * (?v - ?r)"
      unfolding gap by simp
    finally show ?thesis using False by (simp add: Let_def)
  qed
qed


lemma frames_append: "frames (xs @ ys) s = frames ys (frames xs s)"
  by (induction xs arbitrary: s) simp_all

lemma frames_take_Suc:
  "k < length snaps \<Longrightarrow> frames (take (Suc k) snaps) s = update (snaps ! k) (frames (take k snaps) s)"
  by (simp add: take_Suc_conv_app_nth frames_append)

lemma bandRaw_loud: "bandRaw loudSnapshot 0 = 255" "bandRaw loudSnapshot 1 = 255" "bandRaw loudSnapshot 2 = 255"
  by (simp_all add: bandRaw_def getMaxForRange_spec spec_bandRaw_def loudSnapshot_def
      bassRange_def midRange_def trebleRange_def)

lemma bandVals_loud: "bandVals loudSnapshot = [120, 170, 220]"
proof -
  have "getMaxForRange loudSnapshot 0 10 = 255" "getMaxForRange loudSnapshot 10 30 = 255"
    "getMaxForRange loudSnapshot 30 80 = 255"
    by (simp_all add: getMaxForRange_spec spec_bandRaw_def loudSnapshot_def)
  then show ?thesis
    by (simp add: bandVals_def Let_def bassRange_def midRange_def trebleRange_def compress_255
        bassGain_def midGain_def trebleGain_def)
qed

section \<open>Properties of the player\<close>

lemma deliver_closure [simp]: "closureIsReady (deliver x s) = closureIsReady s"
  by (cases x) (simp_all add: handleLoadedMetadata_def handleLoadedData_def handleCanPlay_def
      handleTimeUpdate_def Let_def)

lemma deliverAll_closure [simp]: "closureIsReady (deliverAll xs s) = closureIsReady s"
  by (induction xs arbitrary: s) simp_all

lemma deliver_keeps_ready: "isReady s \<Longrightarrow> isReady (deliver x s)"
  by (cases x) (simp_all add: handleLoadedMetadata_def handleLoadedData_def handleCanPlay_def
      handleTimeUpdate_def Let_def)

lemma deliverAll_keeps_ready: "isReady s \<Longrightarrow> isReady (deliverAll xs s)"
  by (induction xs arbitrary: s) (simp_all add: deliver_keeps_ready)

lemma deliverAll_append: "deliverAll (xs @ ys) s = deliverAll ys (deliverAll xs s)"
  by (induction xs arbitrary: s) simp_all

lemma firstSession_eq:
  "firstSession = \<lparr>isPlaying = False, currentTime = Num 0, duration = Num 0, isReady = False,
      loading = True, volume = Num 0.8, isMuted = False, audioRef = Some ''blob:a'',
      closureIsReady = False\<rparr>"
  by (simp add: firstSession_def loadAudio_def initialPlayer_def)

lemma secondSession_eq:
  "secondSession = \<lparr>isPlaying = False, currentTime = Num 0, duration = Num 3, isReady = False,
      loading = True, volume = Num 0.8, isMuted = False, audioRef = Some ''blob:b'',
      closureIsReady = True\<rparr>"
  by (simp add: secondSession_def loadAudio_def firstSession_eq handleLoadedMetadata_def
      isFinite_def isNaN_def)

lemma playingSession_eq:
  "playingSession = \<lparr>isPlaying = True, currentTime = Num 0, duration = Num 3, isReady = True,
      loading = False, volume = Num 0.8, isMuted = False, audioRef = Some ''blob:a'',
      closureIsReady = False\<rparr>"
  by (simp add: playingSession_def togglePlayPause_def firstSession_eq handleLoadedMetadata_def
      isFinite_def isNaN_def)

section \<open>Properties of the recorder\<close>

lemma firstSupported_find:
  "\<forall>f\<in>set fs. f \<noteq> [] \<Longrightarrow>
   firstSupported supported fs = (case find supported fs of Some f \<Rightarrow> f | None \<Rightarrow> [])"
  by (induction fs) simp_all

lemma firstSupported_empty:
  "\<forall>f\<in>set fs. f \<noteq> [] \<Longrightarrow> (firstSupported supported fs = []) = (find supported fs = None)"
  by (induction fs) auto

lemma formats_nonempty: "\<forall>f\<in>set formats. f \<noteq> []"
  by (simp add: formats_def)

lemma formats_blobType: "\<forall>f\<in>set formats. blobTypeOf f = f"
  by (simp add: formats_def blobTypeOf_def toLowerChar_def)

lemma constructed_recorder:
  "(if firstSupported (isTypeSupported rt) formats \<noteq> []
    then \<lparr>requestedType = Some (firstSupported (isTypeSupported rt) formats),
          mimeType = recorderMimeType rt (Some (firstSupported (isTypeSupported rt) formats)),
          active = False\<rparr>
    else \<lparr>requestedType = None, mimeType = recorderMimeType rt None, active = False\<rparr>)
   = \<lparr>requestedType = spec_firstSupported rt,
      mimeType = recorderMimeType rt (spec_firstSupported rt), active = False\<rparr>"
proof (cases "find (isTypeSupported rt) formats")
  case None
  then show ?thesis
    using firstSupported_empty [OF formats_nonempty, of "isTypeSupported rt"]
    by (simp add: spec_firstSupported_def)
next
  case (Some f)
  then show ?thesis
    using firstSupported_empty [OF formats_nonempty, of "isTypeSupported rt"]
      firstSupported_find [OF formats_nonempty, of "isTypeSupported rt"]
    by (simp add: spec_firstSupported_def)
qed

lemma startRecording_granted:
  "micGranted rt \<Longrightarrow>
   startRecording rt s =
     s\<lparr>streamRef := True, tracksLive := True,
       mediaRecorderRef := Some \<lparr>requestedType = spec_firstSupported rt,
          mimeType = recorderMimeType rt (spec_firstSupported rt), active = True\<rparr>,
       chunksRef := [], isRecording := True, recordingTime := 0, timerRef := True,
       isStreaming := True\<rparr>"
  by (simp add: startRecording_def Let_def constructed_recorder)

lemma ondataavailable_filter:
  "ondataavailable e s = s\<lparr>chunksRef := chunksRef s @ filter (\<lambda>c. blobSize c > 0) [e]\<rparr>"
  by (simp add: ondataavailable_def)

lemma threeSecondsRunning_state:
  assumes "micGranted rt"
  shows "threeSecondsRunning rt c1 c2 c3 s =
     s\<lparr>streamRef := True, tracksLive := True,
       mediaRecorderRef := Some \<lparr>requestedType = spec_firstSupported rt,
          mimeType = recorderMimeType rt (spec_firstSupported rt), active = True\<rparr>,
       chunksRef := filter (\<lambda>c. blobSize c > 0) [c1, c2, c3],
       isRecording := True, recordingTime := 3, timerRef := True, isStreaming := True\<rparr>"
  unfolding threeSecondsRunning_def startRecording_granted [OF assms]
  by (simp add: ondataavailable_filter tick_def)

lemma threeSeconds_state:
  assumes "micGranted rt"
  shows "threeSeconds rt c1 c2 c3 final s =
     s\<lparr>streamRef := True, tracksLive := False,
       mediaRecorderRef := Some \<lparr>requestedType = spec_firstSupported rt,
          mimeType = recorderMimeType rt (spec_firstSupported rt), active = False\<rparr>,
       chunksRef := filter (\<lambda>c. blobSize c > 0) [c1, c2, c3, final],
       isRecording := False, recordingTime := 3, timerRef := False, isStreaming := False,
       completed := Some (newBlob (filter (\<lambda>c. blobSize c > 0) [c1, c2, c3, final])
                          (recorderMimeType rt (spec_firstSupported rt)))\<rparr>"
  unfolding threeSeconds_def startRecording_granted [OF assms]
  by (simp add: ondataavailable_filter tick_def stopRecording_def onstop_def Let_def)

lemma earlierRun_state:
  "threeSeconds oggRuntime (fragment 2) (fragment 3) (fragment 4) (fragment 5) initialRecorder =
     \<lparr>isRecording = False, recordingTime = 3, isStreaming = False,
      mediaRecorderRef = Some \<lparr>requestedType = Some ''audio/ogg'', mimeType = ''audio/ogg'',
         active = False\<rparr>,
      chunksRef = [fragment 2, fragment 3, fragment 4, fragment 5],
      timerRef = False, streamRef = True, tracksLive = False,
      completed = Some \<lparr>blobSize = 14, blobType = ''audio/ogg''\<rparr>\<rparr>"
proof -
  have g: "micGranted oggRuntime" by (simp add: oggRuntime_def)
  have f: "spec_firstSupported oggRuntime = Some ''audio/ogg''"
    by (simp add: spec_firstSupported_def oggRuntime_def formats_def)
  have t: "blobTypeOf ''audio/ogg'' = ''audio/ogg''"
    by (simp add: blobTypeOf_def toLowerChar_def)
  show ?thesis
    unfolding threeSeconds_state [OF g] f
    by (simp add: initialRecorder_def fragment_def newBlob_def t oggRuntime_def)
qed

section \<open>Properties of the gateway\<close>

lemma fileExtension_recording: "fileExtension recordingFile = ''webm''"
  by (simp add: fileExtension_def recordingFile_def lastPart_def toLowerCase_def toLowerChar_def)

section \<open>Claims about the visualizer\<close>

text \<open>
  Claim C1. For every snapshot and every three-entry running-maximum state, one frame of
  the visualization loop emits, for each band, exactly the value the specification
  describes: the maximum magnitude over the band's bins (bass [0,10), mid [10,30),
  treble [30,80)), compressed as sqrt(raw/255)*100, multiplied by the band's gain (1.2,
  1.7, 2.2), scaled by 80/runningMax when the updated running maximum exceeds 80, and
  clamped to [5,90]; and the running maximum is updated as
  runningMax + (max(runningMax, value) - runningMax) * 0.05.
\<close>

theorem update_matches_spec:
  assumes "recentMaxValues s = [b, m, t]"
  shows "amplitudes (update snap s) =
           [fst (spec_band snap 0 10 1.2 b), fst (spec_band snap 10 30 1.7 m),
            fst (spec_band snap 30 80 2.2 t)]
       \<and> recentMaxValues (update snap s) =
           [snd (spec_band snap 0 10 1.2 b), snd (spec_band snap 10 30 1.7 m),
            snd (spec_band snap 30 80 2.2 t)]"
proof -
  have clamp: "\<And>x::real. min 90 (max 5 x) = spec_clamp x 5 90"
    by (simp add: spec_clamp_def min_def max_def)
  have sm: "\<And>r v. smoothMax r v = spec_runningMax r v"
    by (simp add: smoothMax_def spec_runningMax_def adaptationRate_def)
  have vals: "bandVals snap =
      [spec_bandValue snap 0 10 1.2, spec_bandValue snap 10 30 1.7, spec_bandValue snap 30 80 2.2]"
    by (simp add: bandVals_def Let_def spec_bandValue_def compressDynamicRange_def
        getMaxForRange_spec bassRange_def midRange_def trebleRange_def
        bassGain_def midGain_def trebleGain_def)
  have rec: "updateRecentMax [b, m, t]
      [spec_bandValue snap 0 10 1.2, spec_bandValue snap 10 30 1.7, spec_bandValue snap 30 80 2.2] =
      [spec_runningMax b (spec_bandValue snap 0 10 1.2),
       spec_runningMax m (spec_bandValue snap 10 30 1.7),
       spec_runningMax t (spec_bandValue snap 30 80 2.2)]"
    by (simp add: updateRecentMax_def sm)
  show ?thesis
    unfolding update_def Let_def assms vals rec
    by (simp add: adaptiveGain_def spec_band_def Let_def clamp)
qed

text \<open>
  The theorem at a concrete input: only the ten bass bins at full magnitude, on a bass
  running maximum of 110. The bass band is de-gained to 19200/221 (about 86.9), the mid
  band sits at the floor 5, and the bass running maximum moves to 110.5.
\<close>

theorem update_matches_spec_witness:
  "recentMaxValues (initialVisualizer\<lparr>recentMaxValues := [110, 0, 0]\<rparr>) = [110, 0, 0]
   \<and> amplitudes (update bassOnlySnapshot (initialVisualizer\<lparr>recentMaxValues := [110, 0, 0]\<rparr>))
       = [fst (spec_band bassOnlySnapshot 0 10 1.2 110), fst (spec_band bassOnlySnapshot 10 30 1.7 0),
          fst (spec_band bassOnlySnapshot 30 80 2.2 0)]
   \<and> fst (spec_band bassOnlySnapshot 0 10 1.2 110) = 19200 / 221
   \<and> fst (spec_band bassOnlySnapshot 10 30 1.7 0) = 5
   \<and> snd (spec_band bassOnlySnapshot 0 10 1.2 110) = 110.5"
proof -
  have h: "recentMaxValues (initialVisualizer\<lparr>recentMaxValues := [110, 0, 0]\<rparr>) = [110, 0, 0]"
    by simp
  have raw: "spec_bandRaw bassOnlySnapshot 0 10 = 255" "spec_bandRaw bassOnlySnapshot 10 30 = 0"
    using getMax_bassOnly by (simp_all add: getMaxForRange_spec)
  have v: "fst (spec_band bassOnlySnapshot 0 10 1.2 110) = 19200 / 221"
    "fst (spec_band bassOnlySnapshot 10 30 1.7 0) = 5"
    "snd (spec_band bassOnlySnapshot 0 10 1.2 110) = 110.5"
    by (simp_all add: spec_band_def spec_bandValue_def raw spec_runningMax_def spec_clamp_def Let_def)
  show ?thesis
    using update_matches_spec [OF h, of bassOnlySnapshot] h v by simp
qed

text \<open>
  Claim C10. The running maximum of each band never decreases from one frame to the
  next: for every snapshot and every three-entry state, each entry after the frame is at
  least the entry before it.
\<close>

theorem recentMax_never_decreases:
  assumes "length (recentMaxValues s) = 3"
  shows "length (recentMaxValues (update snap s)) = 3
       \<and> (\<forall>idx<3. recentMaxValues s ! idx \<le> recentMaxValues (update snap s) ! idx)"
  using assms
  by (simp add: update_recent updateRecentMax_length updateRecentMax_nth smoothMax_ge)

text \<open>The theorem on the first frame of a fresh component with every bin at 255.\<close>

theorem recentMax_never_decreases_witness:
  "length (recentMaxValues initialVisualizer) = 3
   \<and> recentMaxValues initialVisualizer ! 0 \<le> recentMaxValues (update loudSnapshot initialVisualizer) ! 0
   \<and> recentMaxValues initialVisualizer ! 1 \<le> recentMaxValues (update loudSnapshot initialVisualizer) ! 1
   \<and> recentMaxValues initialVisualizer ! 2 \<le> recentMaxValues (update loudSnapshot initialVisualizer) ! 2"
proof -
  have h: "length (recentMaxValues initialVisualizer) = 3"
    by (simp add: initialVisualizer_def)
  show ?thesis using recentMax_never_decreases [OF h, of loudSnapshot] h by simp
qed

text \<open>
  Claim C8 says that stopping the visualization resets every band's running maximum to
  zero. \<open>stopVisualization\<close> never assigns \<open>recentMaxValues\<close>: after one loud frame
  and a stop the history is still [6, 8.5, 11].
\<close>

theorem stopVisualization_keeps_recentMax_counterexample:
  "recentMaxValues (stopVisualization (update loudSnapshot (startVisualization True initialVisualizer)))
     = [6, 17 / 2, 11]
   \<and> recentMaxValues (stopVisualization (update loudSnapshot (startVisualization True initialVisualizer)))
     \<noteq> [0, 0, 0]"
  by (simp add: stopVisualization_def update_recent startVisualization_def initialVisualizer_def
      bandVals_loud updateRecentMax_def smoothMax_def adaptationRate_def)

text \<open>
  Claim C8, amended. When the visualization stops, the displayed amplitudes are set to
  [0, 0, 0], the pending frame is cancelled and the source and audio context are
  released; the running maxima are left as they are, so that the next run starts from
  the history of the previous one.
\<close>

theorem stopVisualization_keeps_recentMax:
  "recentMaxValues (stopVisualization s) = recentMaxValues s
   \<and> recentMaxValues (startVisualization granted (stopVisualization s)) = recentMaxValues s
   \<and> amplitudes (stopVisualization s) = [0, 0, 0]
   \<and> animationFrameRef (stopVisualization s) = False
   \<and> sourceRef (stopVisualization s) = False
   \<and> audioContextRef (stopVisualization s) = False"
  by (simp add: stopVisualization_def startVisualization_def)

text \<open>
  Claim C5 says that after 1/0.05 = 20 frames with a constant raw maximum R the running
  maximum of a band is within a small epsilon of sqrt(R/255)*100*gain. On a fresh
  component with every bin at 255 the bass target is 120, and after 20 frames the
  running maximum is 120 - 0.95^20 * 120, still more than 43 away from it.
\<close>

theorem recentMax_far_after_20_frames_counterexample:
  "bandRaw loudSnapshot 0 = 255
   \<and> length (replicate 20 loudSnapshot) = 20
   \<and> compressDynamicRange 255 * bandGain 0 = 120
   \<and> 43 < \<bar>recentMaxValues (frames (replicate 20 loudSnapshot) initialVisualizer) ! 0
            - compressDynamicRange 255 * bandGain 0\<bar>"
proof -
  have len: "length (recentMaxValues initialVisualizer) = 3"
    by (simp add: initialVisualizer_def)
  have raw: "\<forall>snap\<in>set (replicate 20 loudSnapshot). bandRaw snap 0 = 255"
    by (simp add: bandRaw_loud)
  have tgt: "compressDynamicRange 255 * bandGain 0 = 120"
    by (simp add: compress_255 bandGain_def bassGain_def)
  have "recentMaxValues (frames (replicate 20 loudSnapshot) initialVisualizer) ! 0
          = 120 - (19 / 20) ^ 20 * 120"
    using frames_closed_form [OF len _ raw]
    by (simp add: tgt Let_def initialVisualizer_def adaptationRate_def)
  moreover have "(43::real) < (19 / 20) ^ 20 * 120"
    by (simp add: power_divide)
  ultimately show ?thesis
    by (simp add: bandRaw_loud tgt)
qed

text \<open>
  Claim C5, amended. If the raw maximum of a band is constant at R over n consecutive
  frames, and v = sqrt(R/255)*100*gain, then a running maximum r that starts at or above
  v stays at r, and one that starts below v ends at v - 0.95^n * (v - r): the gap to v
  shrinks by the factor 0.95 with every frame and is never closed. Every amplitude
  emitted during the run lies in [5, 90].
\<close>

theorem recentMax_geometric_approach:
  assumes "length (recentMaxValues s) = 3" and "idx < 3"
    and "\<forall>snap\<in>set snaps. bandRaw snap idx = R"
  shows "recentMaxValues (frames snaps s) ! idx =
           (let v = compressDynamicRange R * bandGain idx; r = recentMaxValues s ! idx
            in if v \<le> r then r else v - (1 - adaptationRate) ^ length snaps * (v - r))
       \<and> (\<forall>k<length snaps.
             \<forall>a\<in>set (amplitudes (frames (take (Suc k) snaps) s)). 5 \<le> a \<and> a \<le> 90)"
proof
  show "recentMaxValues (frames snaps s) ! idx =
     (let v = compressDynamicRange R * bandGain idx; r = recentMaxValues s ! idx
      in if v \<le> r then r else v - (1 - adaptationRate) ^ length snaps * (v - r))"
    using assms by (rule frames_closed_form)
  show "\<forall>k<length snaps. \<forall>a\<in>set (amplitudes (frames (take (Suc k) snaps) s)). 5 \<le> a \<and> a \<le> 90"
    using update_amplitudes_range by (simp add: frames_take_Suc)
qed

text \<open>
  The theorem on twenty loud frames from a fresh component: the bass running maximum
  ends at 120 - 0.95^20 * 120, and the first frame emits [90, 90, 90].
\<close>

theorem recentMax_geometric_approach_witness:
  "length (recentMaxValues initialVisualizer) = 3
   \<and> bandRaw loudSnapshot 0 = 255
   \<and> recentMaxValues (frames (replicate 20 loudSnapshot) initialVisualizer) ! 0
       = 120 - (19 / 20) ^ 20 * 120
   \<and> amplitudes (frames (take (Suc 0) (replicate 20 loudSnapshot)) initialVisualizer) = [90, 90, 90]"
proof -
  have len: "length (recentMaxValues initialVisualizer) = 3"
    by (simp add: initialVisualizer_def)
  have raw: "\<forall>snap\<in>set (replicate 20 loudSnapshot). bandRaw snap 0 = 255"
    by (simp add: bandRaw_loud)
  have tgt: "compressDynamicRange 255 * bandGain 0 = 120"
    by (simp add: compress_255 bandGain_def bassGain_def)
  have run: "recentMaxValues (frames (replicate 20 loudSnapshot) initialVisualizer) ! 0
          = 120 - (19 / 20) ^ 20 * 120"
    using recentMax_geometric_approach [OF len _ raw]
    by (simp add: tgt Let_def initialVisualizer_def adaptationRate_def)
  have amp: "amplitudes (update loudSnapshot initialVisualizer) = [90, 90, 90]"
    by (simp add: update_def Let_def bandVals_loud initialVisualizer_def updateRecentMax_def
        smoothMax_def adaptationRate_def adaptiveGain_def)
  show ?thesis using len run amp by (simp add: bandRaw_loud)
qed

section \<open>Claims about the player\<close>

text \<open>
  Claim C3: the first readiness signal carrying a finite duration sets the duration and
  makes the session ready, and no later signal changes a duration established by an
  earlier-precedence signal. The handlers guard their fallbacks with \<open>!isReady\<close>, but
  the \<open>isReady\<close> they test is the constant of their closure. The code evaluated at
  two inputs. On a first session the guard never closes: the metadata signal stores the
  duration 3, and a later position update reporting 4 overwrites it with 4. On a session
  loaded while the previous one was ready the guard never opens: a data-ready signal with
  the finite duration 5, the first signal of that session, is ignored, the session stays
  not ready and the duration shown is still the previous session's 3.
\<close>

theorem readiness_stale_closure:
  "closureIsReady firstSession = False
   \<and> duration (deliverAll [LoadedMetadata (Num 3)] firstSession) = Num 3
   \<and> isReady (deliverAll [LoadedMetadata (Num 3)] firstSession) = True
   \<and> duration (deliverAll [LoadedMetadata (Num 3), TimeUpdate (Num 1) (Num 4)] firstSession) = Num 4
   \<and> closureIsReady secondSession = True
   \<and> carriesFinite (LoadedData (Num 5))
   \<and> isReady (deliverAll [LoadedData (Num 5)] secondSession) = False
   \<and> duration (deliverAll [LoadedData (Num 5)] secondSession) = Num 3"
  by (simp add: carriesFinite_def isFinite_def isNaN_def positive_def firstSession_eq
      secondSession_eq handleTimeUpdate_def handleLoadedMetadata_def handleLoadedData_def Let_def)

text \<open>
  Claim C7 says that the error signal makes the session errored and forces
  \<open>isPlaying\<close> to false. \<open>handleError\<close> does not assign \<open>isPlaying\<close>: on a session that
  is ready and playing it stays true.
\<close>

theorem handleError_keeps_isPlaying_counterexample:
  "isReady playingSession \<and> isPlaying playingSession
   \<and> isPlaying (handleError playingSession) \<noteq> False"
  by (simp add: playingSession_eq handleError_def)

text \<open>
  Claim C7, amended. When the handle emits the error signal the session is errored
  (not ready and no longer loading), and \<open>isPlaying\<close> keeps the value it had.
\<close>

theorem handleError_effect:
  "isReady (handleError s) = False \<and> loading (handleError s) = False
   \<and> isPlaying (handleError s) = isPlaying s"
  by (simp add: handleError_def)

text \<open>
  Claim C4. For every value v the volume slider delivers (0 \<le> v \<le> 1) on a session with a
  handle, the volume handler stores clamp(v, 0, 1); if v is 0 muted becomes true, and if
  v is greater than 0 muted becomes false.
\<close>

theorem handleVolumeChange_on_slider:
  assumes "audioRef s \<noteq> None" and "0 \<le> v" and "v \<le> 1"
  shows "volume (handleVolumeChange (Num v) s) = Num (spec_clampVolume v)
       \<and> (v = 0 \<longrightarrow> isMuted (handleVolumeChange (Num v) s) = True)
       \<and> (0 < v \<longrightarrow> isMuted (handleVolumeChange (Num v) s) = False)"
  using assms by (auto simp: handleVolumeChange_def spec_clampVolume_def)

text \<open>
  The theorem on a loaded session: the slider at 0 mutes and stores 0, the slider moved
  on to 0.5 unmutes and stores 0.5.
\<close>

theorem handleVolumeChange_on_slider_witness:
  "audioRef firstSession \<noteq> None
   \<and> volume (handleVolumeChange (Num 0) firstSession) = Num 0
   \<and> isMuted (handleVolumeChange (Num 0) firstSession) = True
   \<and> volume (handleVolumeChange (Num 0.5) (handleVolumeChange (Num 0) firstSession)) = Num 0.5
   \<and> isMuted (handleVolumeChange (Num 0.5) (handleVolumeChange (Num 0) firstSession)) = False"
proof -
  have h: "audioRef firstSession \<noteq> None" by (simp add: firstSession_eq)
  have h2: "audioRef (handleVolumeChange (Num 0) firstSession) \<noteq> None"
    by (simp add: firstSession_eq handleVolumeChange_def)
  show ?thesis
    using handleVolumeChange_on_slider [OF h, of 0]
      handleVolumeChange_on_slider [OF h2, of "0.5"] h
    by (simp add: spec_clampVolume_def)
qed

section \<open>Claims about the recorder\<close>

text \<open>
  Claim C2 says that after a start, three elapsed seconds and a stop the recording has at
  least three chunks. The recorder keeps a fragment only when its size is positive: on a
  run whose second and last fragments are empty, two chunks are kept.
\<close>

theorem three_seconds_empty_fragments_counterexample:
  "micGranted oggRuntime
   \<and> length (chunksRef (threeSeconds oggRuntime (fragment 5) (fragment 0) (fragment 7) (fragment 0)
        initialRecorder)) = 2
   \<and> \<not> 3 \<le> length (chunksRef (threeSeconds oggRuntime (fragment 5) (fragment 0) (fragment 7)
        (fragment 0) initialRecorder))"
proof -
  have g: "micGranted oggRuntime" by (simp add: oggRuntime_def)
  show ?thesis using g by (simp add: threeSeconds_state [OF g] fragment_def)
qed

text \<open>
  Claim C2, amended. When the microphone is granted, the start requests as mime type the
  first candidate of the list (webm, ogg, mp3, mp4, wav, ogg+opus, mpeg, mpga, oga, flac,
  m4a) that the runtime supports, and constructs the recorder without a type (the
  runtime's default) when it supports none. From any earlier state of the component,
  after the start and three seconds that each bring one fragment and one tick, the
  component is recording and has handed over no new blob; after the stop with its last
  fragment, the kept chunks are the non-empty fragments of this run in order (at least
  three when the three one-second fragments are non-empty), the elapsed time is 3 and
  no longer advances, the component is not recording and the tracks are stopped, and the
  completed blob is built from the kept chunks with the type the recorder reports; that
  type is the first supported candidate whenever the runtime reports the requested type
  as it was requested.
\<close>

theorem three_seconds_recording:
  assumes "micGranted rt"
  shows "map_option requestedType (mediaRecorderRef (startRecording rt s))
           = Some (spec_firstSupported rt)
       \<and> completed (threeSecondsRunning rt c1 c2 c3 s) = completed s
       \<and> isRecording (threeSecondsRunning rt c1 c2 c3 s) = True
       \<and> chunksRef (threeSeconds rt c1 c2 c3 final s)
           = filter (\<lambda>c. blobSize c > 0) [c1, c2, c3, final]
       \<and> (0 < blobSize c1 \<and> 0 < blobSize c2 \<and> 0 < blobSize c3 \<longrightarrow>
            3 \<le> length (chunksRef (threeSeconds rt c1 c2 c3 final s)))
       \<and> recordingTime (threeSeconds rt c1 c2 c3 final s) = 3
       \<and> recordingTime (tick (threeSeconds rt c1 c2 c3 final s)) = 3
       \<and> isRecording (threeSeconds rt c1 c2 c3 final s) = False
       \<and> tracksLive (threeSeconds rt c1 c2 c3 final s) = False
       \<and> completed (threeSeconds rt c1 c2 c3 final s)
           = Some (newBlob (filter (\<lambda>c. blobSize c > 0) [c1, c2, c3, final])
                     (recorderMimeType rt (spec_firstSupported rt)))
       \<and> (spec_firstSupported rt = Some f \<and> recorderMimeType rt (Some f) = f \<longrightarrow>
            map_option blobType (completed (threeSeconds rt c1 c2 c3 final s)) = Some f)"
proof -
  have ty: "spec_firstSupported rt = Some f \<Longrightarrow> blobTypeOf f = f"
    using formats_blobType by (auto simp: spec_firstSupported_def find_Some_iff)
  show ?thesis
    using ty
    by (auto simp: threeSeconds_state [OF assms] threeSecondsRunning_state [OF assms]
        startRecording_granted [OF assms] tick_def newBlob_def)
qed

text \<open>
  The theorem on a runtime that supports ogg and mp4 (ogg is requested and reported), for
  a first recording and for a second one made after it, whose chunks, time and blob do
  not carry over from the first; and on a runtime that supports no candidate, where the
  blob carries the default type the recorder reports, lower-cased.
\<close>

theorem three_seconds_recording_witness:
  "micGranted oggRuntime \<and> micGranted bareRuntime
   \<and> spec_firstSupported oggRuntime = Some ''audio/ogg''
   \<and> recorderMimeType oggRuntime (Some ''audio/ogg'') = ''audio/ogg''
   \<and> spec_firstSupported bareRuntime = None
   \<and> chunksRef (threeSeconds oggRuntime (fragment 2) (fragment 3) (fragment 4) (fragment 5)
        initialRecorder) = [fragment 2, fragment 3, fragment 4, fragment 5]
   \<and> recordingTime (threeSeconds oggRuntime (fragment 2) (fragment 3) (fragment 4) (fragment 5)
        initialRecorder) = 3
   \<and> chunksRef (threeSeconds oggRuntime (fragment 5) (fragment 6) (fragment 7) (fragment 0)
        (threeSeconds oggRuntime (fragment 2) (fragment 3) (fragment 4) (fragment 5) initialRecorder))
       = [fragment 5, fragment 6, fragment 7]
   \<and> recordingTime (threeSeconds oggRuntime (fragment 5) (fragment 6) (fragment 7) (fragment 0)
        (threeSeconds oggRuntime (fragment 2) (fragment 3) (fragment 4) (fragment 5) initialRecorder))
       = 3
   \<and> completed (threeSecondsRunning oggRuntime (fragment 5) (fragment 6) (fragment 7)
        (threeSeconds oggRuntime (fragment 2) (fragment 3) (fragment 4) (fragment 5) initialRecorder))
       = Some \<lparr>blobSize = 14, blobType = ''audio/ogg''\<rparr>
   \<and> completed (threeSeconds oggRuntime (fragment 5) (fragment 6) (fragment 7) (fragment 0)
        (threeSeconds oggRuntime (fragment 2) (fragment 3) (fragment 4) (fragment 5) initialRecorder))
       = Some \<lparr>blobSize = 18, blobType = ''audio/ogg''\<rparr>
   \<and> completed (threeSeconds bareRuntime (fragment 5) (fragment 6) (fragment 7) (fragment 0)
        initialRecorder)
       = Some \<lparr>blobSize = 18, blobType = ''audio/x-default''\<rparr>"
proof -
  have g: "micGranted oggRuntime" by (simp add: oggRuntime_def)
  have b: "micGranted bareRuntime" by (simp add: bareRuntime_def)
  have fo: "spec_firstSupported oggRuntime = Some ''audio/ogg''"
    by (simp add: spec_firstSupported_def oggRuntime_def formats_def)
  have fb: "spec_firstSupported bareRuntime = None"
    by (simp add: spec_firstSupported_def bareRuntime_def formats_def)
  have ro: "recorderMimeType oggRuntime (Some ''audio/ogg'') = ''audio/ogg''"
    by (simp add: oggRuntime_def)
  have rb: "recorderMimeType bareRuntime None = ''Audio/X-Default''"
    by (simp add: bareRuntime_def)
  have tb: "blobTypeOf ''Audio/X-Default'' = ''audio/x-default''"
    by code_simp
  have to: "blobTypeOf ''audio/ogg'' = ''audio/ogg''"
    by (simp add: blobTypeOf_def toLowerChar_def)
  note first = three_seconds_recording [OF g, of initialRecorder "fragment 2" "fragment 3"
      "fragment 4" "fragment 5" "''audio/ogg''"]
  note second = three_seconds_recording [OF g,
      of "threeSeconds oggRuntime (fragment 2) (fragment 3) (fragment 4) (fragment 5) initialRecorder"
         "fragment 5" "fragment 6" "fragment 7" "fragment 0" "''audio/ogg''"]
  note bare = three_seconds_recording [OF b, of initialRecorder "fragment 5" "fragment 6"
      "fragment 7" "fragment 0" "''audio/ogg''"]
  have c1: "chunksRef (threeSeconds oggRuntime (fragment 2) (fragment 3) (fragment 4) (fragment 5)
        initialRecorder) = [fragment 2, fragment 3, fragment 4, fragment 5]"
    using first by (simp add: fragment_def)
  have c2: "chunksRef (threeSeconds oggRuntime (fragment 5) (fragment 6) (fragment 7) (fragment 0)
        (threeSeconds oggRuntime (fragment 2) (fragment 3) (fragment 4) (fragment 5) initialRecorder))
       = [fragment 5, fragment 6, fragment 7]"
    using second by (simp add: fragment_def)
  have k2: "completed (threeSeconds oggRuntime (fragment 5) (fragment 6) (fragment 7) (fragment 0)
        (threeSeconds oggRuntime (fragment 2) (fragment 3) (fragment 4) (fragment 5) initialRecorder))
       = Some \<lparr>blobSize = 18, blobType = ''audio/ogg''\<rparr>"
    using second unfolding fo ro by (simp add: fragment_def newBlob_def to)
  have k1: "completed (threeSecondsRunning oggRuntime (fragment 5) (fragment 6) (fragment 7)
        (threeSeconds oggRuntime (fragment 2) (fragment 3) (fragment 4) (fragment 5) initialRecorder))
       = Some \<lparr>blobSize = 14, blobType = ''audio/ogg''\<rparr>"
    using second by (simp add: earlierRun_state)
  have kb: "completed (threeSeconds bareRuntime (fragment 5) (fragment 6) (fragment 7) (fragment 0)
        initialRecorder) = Some \<lparr>blobSize = 18, blobType = ''audio/x-default''\<rparr>"
    using bare unfolding fb rb by (simp add: fragment_def newBlob_def tb)
  show ?thesis
    using g b fo fb ro c1 c2 k1 k2 kb first second by simp
qed

section \<open>Claims about the gateway\<close>

text \<open>
  Claim C9 says that a call with only the flag for the fallback sample returns the
  transcript shape. On the code the flag's branch reads \<open>audioFile.name\<close> to build the
  provider's options; with no file this throws before the provider is called, and the
  outer \<open>catch\<close> returns the error shape, whatever the provider would answer.
\<close>

theorem transcribe_flag_only_fails:
  "transcribeAudio transcribe flagOnlyForm
     = Failed ''Failed to transcribe audio: Cannot read properties of null (reading 'name')''
   \<and> providerCalls transcribe flagOnlyForm = []"
  by (simp add: transcribeAudio_def providerCalls_def transcribeBody_def transcribeTest_def
      flagOnlyForm_def nullNameError_def describe_def Let_def)

text \<open>
  Claim C6 says that when the provider fails on a real payload the gateway returns a
  success and no error. The retry on the fallback sample can fail as well: with a
  provider that rejects every request the caller gets the error shape.
\<close>

theorem fallback_can_fail_counterexample:
  "rejectingProvider (Buffer (fileBytes recordingFile) (''audio.'' @ fileExtension recordingFile))
       (fileName recordingFile) = Inl \<lparr>errName = ''Error'', errMessage = ''Unauthorized''\<rparr>
   \<and> transcribeAudio rejectingProvider recordingForm
       = Failed ''Failed to transcribe audio: Unauthorized''"
  by (simp add: transcribeAudio_def transcribeBody_def transcribeTest_def recordingForm_def
      rejectingProvider_def describe_def Let_def)

text \<open>
  Claim C6, amended. When the gateway is called with a real payload (and without the
  flag) and the provider fails on that payload, the gateway calls the provider once more,
  on the fallback sample. If that call succeeds the gateway returns the success shape
  with the sample's text followed by the disclaimer; if it fails too, the gateway returns
  the error shape with that failure's message.
\<close>

theorem fallback_after_rejection:
  assumes "audio fd = Some f" and "useTestAudio fd \<noteq> Some ''true''"
    and "transcribe (Buffer (fileBytes f) (''audio.'' @ fileExtension f)) (fileName f) = Inl e"
  shows "providerCalls transcribe fd
           = [Buffer (fileBytes f) (''audio.'' @ fileExtension f), Url TEST_MP3_URL]
       \<and> (transcribe (Url TEST_MP3_URL) (fileName f) = Inr result \<longrightarrow>
            transcribeAudio transcribe fd
              = Transcribed (result\<lparr>resultText := resultText result @ disclaimer\<rparr>))
       \<and> (transcribe (Url TEST_MP3_URL) (fileName f) = Inl e' \<longrightarrow>
            transcribeAudio transcribe fd = Failed (''Failed to transcribe audio: '' @ describe e'))"
  using assms
  by (auto simp: transcribeAudio_def providerCalls_def transcribeBody_def transcribeTest_def Let_def
      split: sum.splits)

text \<open>
  The theorem on a recording and a provider that rejects uploaded bytes and transcribes
  the fallback sample.
\<close>

theorem fallback_after_rejection_witness:
  "audio recordingForm = Some recordingFile \<and> useTestAudio recordingForm \<noteq> Some ''true''
   \<and> pickyProvider (Buffer [26, 69] ''audio.webm'') ''recording.webm''
       = Inl \<lparr>errName = ''Error'', errMessage = ''Invalid file format''\<rparr>
   \<and> pickyProvider (Url TEST_MP3_URL) ''recording.webm'' = Inr sampleTranscript
   \<and> providerCalls pickyProvider recordingForm = [Buffer [26, 69] ''audio.webm'', Url TEST_MP3_URL]
   \<and> transcribeAudio pickyProvider recordingForm
       = Transcribed \<lparr>resultText = ''Hello (NOTE: This is from a test audio, not your recording)'',
           durationInSeconds = 3, segments = [], language = ''en''\<rparr>"
proof -
  have a: "audio recordingForm = Some recordingFile" by (simp add: recordingForm_def)
  have b: "useTestAudio recordingForm \<noteq> Some ''true''" by (simp add: recordingForm_def)
  have c: "pickyProvider (Buffer (fileBytes recordingFile) (''audio.'' @ fileExtension recordingFile))
       (fileName recordingFile) = Inl \<lparr>errName = ''Error'', errMessage = ''Invalid file format''\<rparr>"
    by (simp add: pickyProvider_def)
  have d: "pickyProvider (Url TEST_MP3_URL) (fileName recordingFile) = Inr sampleTranscript"
    by (simp add: pickyProvider_def)
  show ?thesis
    using fallback_after_rejection [where transcribe = pickyProvider, OF a b c, of sampleTranscript] a b c d
    unfolding fileExtension_recording
    by (simp add: recordingFile_def sampleTranscript_def disclaimer_def)
qed

end
